theory Spec2Isabelle
  imports Main "HOL-Library.Word"
begin

section \<open>Machine types shared by the C++ sources\<close>

text \<open>
  Pointers (\<^verbatim>\<open>double*\<close>, \<^verbatim>\<open>T*\<close>, \<^verbatim>\<open>FILE*\<close>) are byte addresses in a 64-bit address
  space, \<^verbatim>\<open>NULL\<close> is address 0. \<^verbatim>\<open>std::uint64_t\<close> and \<^verbatim>\<open>size_t\<close> are 64-bit words whose
  arithmetic wraps; \<^verbatim>\<open>long\<close> is a 64-bit word read as two's complement.
\<close>

type_synonym addr = "64 word"
type_synonym uint64_t = "64 word"
type_synonym size_t = "64 word"
type_synonym long = "64 word"

definition NULL :: addr where
  "NULL = 0"

text \<open>\<^verbatim>\<open>sizeof(double)\<close>: adding \<open>n\<close> to a \<^verbatim>\<open>double*\<close> moves the address by \<open>8 * n\<close> bytes.\<close>

definition sizeof_double :: "64 word" where
  "sizeof_double = 8"

definition ptr_add :: "addr \<Rightarrow> uint64_t \<Rightarrow> addr" where
  "ptr_add p n = p + sizeof_double * n"

definition ptr_sub :: "addr \<Rightarrow> uint64_t \<Rightarrow> addr" where
  "ptr_sub p n = p - sizeof_double * n"

section \<open>dcore.cpp: the bump allocator\<close>

text \<open>
  The fields of class \<^verbatim>\<open>dcore\<close> as \<^verbatim>\<open>dcore.cpp\<close> uses them. The field \<^verbatim>\<open>next\<close> is written
  \<open>next'\<close> here, and \<^verbatim>\<open>dcore::size()\<close> is \<open>dcore_size\<close>.
\<close>

record dcore =
  buf :: addr
  next' :: addr
  len :: uint64_t
  navbl :: uint64_t
  allocated :: bool

text \<open>Every \<^verbatim>\<open>printf\<close> followed by \<^verbatim>\<open>exit(1)\<close> is an error value named after its message.\<close>

datatype dcore_exit =
    AlreadyAllocated
  | LessThanOneElement
  | BeyondLimit
  | AllocationFailed
  | DeallocateUnallocated
  | CheckoutTooMany
  | CheckoutUnallocated
  | RemoveUnallocated

definition uint64_max :: uint64_t where
  "uint64_max = - 1"

text \<open>The check after the branches of \<^verbatim>\<open>allocate\<close>: \<^verbatim>\<open>if (buf == NULL) exit(1)\<close>.\<close>

definition check_buf :: "dcore \<Rightarrow> dcore_exit + dcore" where
  "check_buf d = (if buf d = NULL then Inl AllocationFailed else Inr d)"

text \<open>
  \<^verbatim>\<open>dcore::allocate(n)\<close>; \<open>m\<close> is the address \<^verbatim>\<open>malloc\<close> returns (\<open>NULL\<close> on failure). The
  first branch asks for \<^verbatim>\<open>n > 1\<close>, the third for \<^verbatim>\<open>n < 1\<close>: with \<open>n = 1\<close> on an unallocated
  dcore no branch is taken and only the final check runs.
\<close>

definition allocate :: "addr \<Rightarrow> dcore \<Rightarrow> uint64_t \<Rightarrow> dcore_exit + dcore" where
  "allocate m d n =
     (if \<not> allocated d \<and> 1 < n \<and> n \<le> uint64_max
      then check_buf (d\<lparr>buf := m, next' := m, len := n, navbl := n, allocated := True\<rparr>)
      else if allocated d then Inl AlreadyAllocated
      else if n < 1 then Inl LessThanOneElement
      else if uint64_max < n then Inl BeyondLimit
      else check_buf d)"

definition deallocate :: "dcore \<Rightarrow> dcore_exit + dcore" where
  "deallocate d =
     (if allocated d then Inr (d\<lparr>next' := NULL, allocated := False\<rparr>)
      else Inl DeallocateUnallocated)"

definition dcore_size :: "dcore \<Rightarrow> uint64_t" where
  "dcore_size d = len d"

definition nfree :: "dcore \<Rightarrow> uint64_t" where
  "nfree d = navbl d"

text \<open>
  \<^verbatim>\<open>dcore::checkout(n)\<close>: the returned pointer is read from \<^verbatim>\<open>next\<close> after the update, so
  the result pairs the returned address with the new state.
\<close>

definition checkout :: "dcore \<Rightarrow> uint64_t \<Rightarrow> dcore_exit + (addr \<times> dcore)" where
  "checkout d n =
     (if allocated d then
        (if n \<le> navbl d then
           (let d' = d\<lparr>navbl := navbl d - n, next' := ptr_add (next' d) n\<rparr>
            in Inr (next' d', d'))
         else Inl CheckoutTooMany)
      else Inl CheckoutUnallocated)"

text \<open>\<^verbatim>\<open>dcore::remove(n)\<close>: \<^verbatim>\<open>navbl += n\<close> wraps like any \<^verbatim>\<open>uint64_t\<close> addition.\<close>

definition remove :: "dcore \<Rightarrow> uint64_t \<Rightarrow> dcore_exit + (addr \<times> dcore)" where
  "remove d n =
     (if allocated d then
        (let d1 = d\<lparr>navbl := navbl d + n\<rparr>;
             d2 = (if navbl d1 \<le> len d1 then d1\<lparr>next' := ptr_sub (next' d1) n\<rparr>
                   else d1\<lparr>navbl := len d1, next' := buf d1\<rparr>)
         in Inr (next' d2, d2))
      else Inl RemoveUnallocated)"

text \<open>
  The number of elements handed out so far is \<open>len - navbl\<close>; on an allocated dcore the bump
  pointer stands that many elements past \<open>buf\<close>.
\<close>

definition used :: "dcore \<Rightarrow> uint64_t" where
  "used d = len d - navbl d"

definition bump_inv :: "dcore \<Rightarrow> bool" where
  "bump_inv d = (allocated d \<longrightarrow> next' d = ptr_add (buf d) (used d))"

section \<open>tensor.hpp: allocation state of a tensor\<close>

record tensor =
  M_BUFFER :: addr
  M_POINTER :: addr
  M_LENGTHS :: "size_t list"
  M_STRIDE :: "size_t list"
  M_NDIM :: size_t
  M_NELM :: size_t
  M_ALIGNMENT :: size_t
  M_IS_ALLOCATED :: bool
  M_IS_ASSIGNED :: bool

text \<open>
  The ways a call can end other than by returning: the four \<^verbatim>\<open>exit(1)\<close> messages, and
  \<open>InvalidFree\<close> for \<^verbatim>\<open>free\<close> of an address that is not a live block, which is undefined
  behaviour in C.
\<close>

datatype tensor_exit =
    CouldNotAllocate
  | AllocateAlreadySet
  | AssignAlreadyAllocated
  | DeallocateUnallocatedTensor
  | UnassignUnassigned
  | InvalidFree

text \<open>
  The blocks \<^verbatim>\<open>malloc\<close> has handed out and \<^verbatim>\<open>free\<close> has not yet taken back, by start
  address. \<^verbatim>\<open>free(p)\<close> takes the live block \<open>p\<close> out of the set; on any other non-null
  address it has no defined result.
\<close>

type_synonym heap = "addr set"

definition free :: "addr \<Rightarrow> heap \<Rightarrow> heap option" where
  "free p h = (if p \<in> h then Some (h - {p}) else None)"

text \<open>
  \<^verbatim>\<open>calc_alignment\<close>: the loop visits \<open>m = 2, 4, ..., 512\<close>; it returns the alignment found so
  far at the first \<open>m\<close> that does not divide the address and doubles it otherwise. The test
  \<^verbatim>\<open>(long)pointer % m != 0\<close> on the signed value agrees with the unsigned one, every \<open>m\<close> being
  a power of two.
\<close>

fun calc_alignment_loop :: "nat list \<Rightarrow> addr \<Rightarrow> nat \<Rightarrow> nat" where
  "calc_alignment_loop [] p alignment = alignment"
| "calc_alignment_loop (m # ms) p alignment =
     (if unat p mod m \<noteq> 0 then alignment else calc_alignment_loop ms p (alignment * 2))"

definition calc_alignment :: "addr \<Rightarrow> size_t" where
  "calc_alignment p = of_nat (calc_alignment_loop [2, 4, 8, 16, 32, 64, 128, 256, 512] p 1)"

definition m_set_default :: "tensor \<Rightarrow> tensor" where
  "m_set_default t =
     t\<lparr>M_BUFFER := NULL, M_POINTER := NULL, M_NELM := 0, M_ALIGNMENT := 0,
       M_IS_ALLOCATED := False, M_IS_ASSIGNED := False\<rparr>"

text \<open>\<^verbatim>\<open>tensor::m_allocate\<close>; \<open>m\<close> is the address \<^verbatim>\<open>malloc(sizeof(T)*M_NELM)\<close> returns.\<close>

definition m_allocate :: "addr \<Rightarrow> tensor \<times> heap \<Rightarrow> tensor_exit + (tensor \<times> heap)" where
  "m_allocate m th =
     (case th of (t, h) \<Rightarrow>
        if \<not> M_IS_ALLOCATED t \<and> \<not> M_IS_ASSIGNED t then
          (if m = NULL then Inl CouldNotAllocate
           else Inr (t\<lparr>M_POINTER := m, M_BUFFER := m, M_IS_ALLOCATED := True,
                       M_ALIGNMENT := calc_alignment m\<rparr>, insert m h))
        else Inl AllocateAlreadySet)"

definition m_assign :: "addr \<Rightarrow> tensor \<Rightarrow> tensor_exit + tensor" where
  "m_assign pointer t =
     (if \<not> M_IS_ALLOCATED t then
        Inr (t\<lparr>M_BUFFER := pointer, M_POINTER := pointer, M_IS_ASSIGNED := True,
               M_ALIGNMENT := calc_alignment pointer\<rparr>)
      else Inl AssignAlreadyAllocated)"

definition is_allocated :: "tensor \<Rightarrow> bool" where
  "is_allocated t = M_IS_ALLOCATED t"

definition is_assigned :: "tensor \<Rightarrow> bool" where
  "is_assigned t = M_IS_ASSIGNED t"

definition is_set :: "tensor \<Rightarrow> bool" where
  "is_set t = (M_IS_ALLOCATED t \<or> M_IS_ASSIGNED t)"

text \<open>
  \<^verbatim>\<open>tensor::deallocate\<close>: frees \<^verbatim>\<open>M_POINTER\<close> when it is not \<^verbatim>\<open>NULL\<close> and nulls
  \<^verbatim>\<open>M_BUFFER\<close>; no other member is assigned.
\<close>

definition tensor_deallocate :: "tensor \<times> heap \<Rightarrow> tensor_exit + (tensor \<times> heap)" where
  "tensor_deallocate th =
     (case th of (t, h) \<Rightarrow>
        if M_IS_ALLOCATED t then
          (if M_POINTER t \<noteq> NULL then
             (case free (M_POINTER t) h of
                None \<Rightarrow> Inl InvalidFree
              | Some h' \<Rightarrow> Inr (t\<lparr>M_BUFFER := NULL\<rparr>, h'))
           else Inr (t\<lparr>M_BUFFER := NULL\<rparr>, h))
        else Inl DeallocateUnallocatedTensor)"

text \<open>
  The allocated state: the flag is set and \<open>M_POINTER\<close> is the address of a live block, as
  \<open>m_allocate\<close> leaves it.
\<close>

definition allocated_state :: "tensor \<times> heap \<Rightarrow> bool" where
  "allocated_state th =
     (case th of (t, h) \<Rightarrow> M_IS_ALLOCATED t \<and> M_POINTER t \<noteq> NULL \<and> M_POINTER t \<in> h)"

text \<open>\<^verbatim>\<open>tensor::unassign\<close>: nulls both pointers, then calls \<^verbatim>\<open>m_set_default\<close>.\<close>

definition unassign :: "tensor \<Rightarrow> tensor_exit + tensor" where
  "unassign t =
     (if M_IS_ASSIGNED t then Inr (m_set_default (t\<lparr>M_POINTER := NULL, M_BUFFER := NULL\<rparr>))
      else Inl UnassignUnassigned)"

section \<open>pfile.hpp: the data of class Pfile and the inline getter\<close>

definition PFILE_RES :: nat where
  "PFILE_RES = 50"

definition PFILE_LEN :: nat where
  "PFILE_LEN = 32"

record Pfio =
  fptr :: addr
  fpos :: long

record Pbool =
  val :: bool

text \<open>
  The private members of class \<^verbatim>\<open>Pfile\<close>. \<^verbatim>\<open>Strvec<PFILE_LEN>\<close> is a vector of strings, and
  \<^verbatim>\<open>int\<close> members are read as integers (no arithmetic on them is used here).
\<close>

record Pfile =
  m_fio :: "Pfio list"
  m_isopen :: "Pbool list"
  m_fname :: "string list"
  m_fstat :: "string list"
  m_buf :: string
  m_nfiles :: int
  m_rootid :: int

text \<open>
  \<^verbatim>\<open>long get_pos(const int fid) const {return m_fio[fid].fpos;}\<close>

  The call is written in state-passing form over the object and the state \<open>'os\<close> of the
  operating system (stream positions, buffers, files), so that what the call leaves alone can
  be stated. \<^verbatim>\<open>std::vector::operator[]\<close> does not check its index: an index outside the
  vector is undefined behaviour, the value \<open>None\<close> here.
\<close>

definition get_pos :: "int \<Rightarrow> Pfile \<times> 'os \<Rightarrow> (long \<times> (Pfile \<times> 'os)) option" where
  "get_pos fid s =
     (case s of (p, os) \<Rightarrow>
        if 0 \<le> fid \<and> nat fid < length (m_fio p)
        then Some (fpos (m_fio p ! nat fid), (p, os))
        else None)"

section \<open>The parallel file registry of the specification\<close>

text \<open>
  Modelled from the spec: class \<^verbatim>\<open>Pworld\<close>, the parallel execution context, is not among the
  sources (\<^verbatim>\<open>pfile.hpp\<close> only takes it as a parameter). Section 6 of the specification gives
  what it exposes: the calling task's rank, the total task count and the designated
  responsible task's rank.
\<close>

record Pworld =
  rank :: nat
  ntasks :: nat
  root :: nat

text \<open>
  Modelled from the spec: the sharing mode of a file (glossary): one physical copy written by
  the responsible task, or one physical copy per task. No declaration of it is among the
  sources.
\<close>

datatype sharing_mode = Shared | Private

text \<open>
  Modelled from the spec: the participation policy of section 4.1, whose code (the check
  made by the entry points of \<^verbatim>\<open>Pfile\<close>) is not among the sources. For a shared file only the
  context's root is responsible, for a private file every task is.
\<close>

definition responsible :: "Pworld \<Rightarrow> sharing_mode \<Rightarrow> bool" where
  "responsible ctx m = (case m of Shared \<Rightarrow> rank ctx = root ctx | Private \<Rightarrow> True)"

text \<open>
  Modelled from the spec: the \<open>N\<close> simulated tasks of section 8, as the contexts of one
  parallel run of \<open>N\<close> tasks whose root is task \<open>r\<close>, in rank order.
\<close>

definition tasks :: "nat \<Rightarrow> nat \<Rightarrow> Pworld list" where
  "tasks N r = map (\<lambda>k. \<lparr>rank = k, ntasks = N, root = r\<rparr>) [0..<N]"

text \<open>
  Modelled from the spec: the file record of section 3; the members of \<^verbatim>\<open>Pfile\<close> above hold
  the same data column by column, and the code that fills them is not among the sources.
  The resolved path and the sharing mode are known once the name has been resolved (``at
  registration or open time''), hence optional; the handle is present only while the record
  is open. The file table is the list of records, in table order.
\<close>

record file_record =
  file_id :: nat
  name :: string
  sharing :: "sharing_mode option"
  resolved_path :: "string option"
  status :: string
  is_open :: bool
  handle :: "addr option"
  position :: int

text \<open>
  Modelled from the spec: the error kinds of section 7, by which every registry operation
  tells success from failure. \<^verbatim>\<open>pfile.hpp\<close> declares integer codes for six of them and the
  code that returns them is not among the sources.
\<close>

datatype pfile_error =
    NameTooLong
  | InvalidId
  | AlreadyOpen
  | NotOpen
  | NullHandle
  | CloseFailed
  | EraseFailed
  | FlushFailed

text \<open>
  Modelled from the spec: the logical contents of a record that persistence keeps (section
  4.4), and the recovery store of section 6, a sequential list of \<open>(id, name, status)\<close>
  triples in save order. The on-disk framing is not among the sources.
\<close>

type_synonym triple = "nat \<times> string \<times> string"

type_synonym recovery_store = "triple list"

definition triple_of :: "file_record \<Rightarrow> triple" where
  "triple_of r = (file_id r, name r, status r)"

text \<open>
  Modelled from the spec: \<^verbatim>\<open>Pfile::save\<close>, declared in \<^verbatim>\<open>pfile.hpp\<close>, body not among the
  sources. Section 4.4: the responsible task writes the triples of every record, in table
  order, and neither handles nor positions; on any other task the call succeeds and writes
  nothing.
\<close>

definition save :: "Pworld \<Rightarrow> file_record list \<Rightarrow> recovery_store
                     \<Rightarrow> (pfile_error + unit) \<times> recovery_store" where
  "save ctx tbl st = (Inr (), if responsible ctx Shared then map triple_of tbl else st)"

text \<open>
  Modelled from the spec: the record that recovery builds from a stored triple (section
  4.4): it has the stored id, name and status, is closed and holds no handle; its path is to
  be resolved when it is reopened.
\<close>

definition recovered :: "triple \<Rightarrow> file_record" where
  "recovered t =
     (case t of (i, n, s) \<Rightarrow>
        \<lparr>file_id = i, name = n, sharing = None, resolved_path = None, status = s,
         is_open = False, handle = None, position = 0\<rparr>)"

text \<open>
  Modelled from the spec: \<^verbatim>\<open>Pfile::recover\<close>, declared in \<^verbatim>\<open>pfile.hpp\<close>, body not among the
  sources. Section 4.4: the table is rebuilt from the store, one record per triple, in the
  order the triples were saved in; the context plays no part in it.
\<close>

definition recover :: "Pworld \<Rightarrow> recovery_store \<Rightarrow> (pfile_error + unit) \<times> file_record list" where
  "recover ctx st = (Inr (), map recovered st)"

section \<open>Properties of dcore\<close>

text \<open>
  The invariant holds on every dcore the default constructor builds (\<open>allocated\<close> is false
  there) and is kept by every member function that returns.
\<close>

lemma bump_inv_unallocated: "\<not> allocated d \<Longrightarrow> bump_inv d"
  by (simp add: bump_inv_def)

lemma bump_inv_allocate: "allocate m d n = Inr d' \<Longrightarrow> bump_inv d'"
  by (auto simp: allocate_def check_buf_def bump_inv_def used_def ptr_add_def split: if_splits)

lemma bump_inv_checkout: "bump_inv d \<Longrightarrow> checkout d n = Inr (p, d') \<Longrightarrow> bump_inv d'"
  by (auto simp: checkout_def bump_inv_def used_def ptr_add_def Let_def algebra_simps
      split: if_splits)

lemma bump_inv_remove: "bump_inv d \<Longrightarrow> remove d n = Inr (p, d') \<Longrightarrow> bump_inv d'"
  by (auto simp: remove_def bump_inv_def used_def ptr_add_def ptr_sub_def Let_def algebra_simps
      split: if_splits)

lemma bump_inv_deallocate: "deallocate d = Inr d' \<Longrightarrow> bump_inv d'"
  by (auto simp: deallocate_def bump_inv_def split: if_splits)

text \<open>
  Moving a \<^verbatim>\<open>double*\<close> by \<open>n\<close> elements changes the address unless \<open>8 * n\<close> wraps to 0; a
  block that \<^verbatim>\<open>malloc(n*sizeof(double))\<close> can hold has \<open>n < 2 ^ 61\<close>.
\<close>

lemma ptr_add_moves:
  fixes n :: uint64_t
  assumes "n \<noteq> 0" and "n < 2 ^ 61"
  shows "ptr_add p n \<noteq> p"
proof -
  have "unat n < 2 ^ 61"
    using assms(2) by (simp add: word_less_nat_alt)
  then have "unat (8 * n) = 8 * unat n"
    by (simp add: unat_word_ariths)
  moreover have "unat n \<noteq> 0"
    using assms(1) by (simp add: unat_eq_0)
  ultimately have "8 * n \<noteq> 0"
    by (metis mult_eq_0_iff unat_0 zero_neq_numeral)
  then show ?thesis
    by (simp add: ptr_add_def sizeof_double_def)
qed

text \<open>
  Claim C9. On an allocated dcore with \<open>navbl \<ge> n\<close>, \<open>checkout n\<close> lowers \<open>navbl\<close> by \<open>n\<close>,
  moves \<open>next\<close> forward by \<open>n\<close> elements and returns the pointer as it stands after the move.
  Where the bump pointer stood at \<open>buf\<close> plus the elements used so far, the returned address
  is \<open>buf\<close> plus the used elements plus \<open>n\<close>: one past the end of the block just reserved. It
  is not the start of that block (the old \<open>next\<close>) for any non-empty block that fits in memory.
\<close>

theorem checkout_returns_advanced_pointer:
  assumes "allocated d" and "n \<le> navbl d"
  shows "checkout d n =
           Inr (ptr_add (next' d) n, d\<lparr>navbl := navbl d - n, next' := ptr_add (next' d) n\<rparr>)
         \<and> (bump_inv d \<longrightarrow> ptr_add (next' d) n = ptr_add (buf d) (used d + n))
         \<and> (n \<noteq> 0 \<and> n < 2 ^ 61 \<longrightarrow> ptr_add (next' d) n \<noteq> next' d)"
proof (intro conjI impI)
  show "checkout d n =
          Inr (ptr_add (next' d) n, d\<lparr>navbl := navbl d - n, next' := ptr_add (next' d) n\<rparr>)"
    using assms by (simp add: checkout_def Let_def)
next
  assume "bump_inv d"
  then have "next' d = ptr_add (buf d) (used d)"
    using assms(1) by (simp add: bump_inv_def)
  then show "ptr_add (next' d) n = ptr_add (buf d) (used d + n)"
    by (simp add: ptr_add_def algebra_simps)
next
  assume "n \<noteq> 0 \<and> n < 2 ^ 61"
  then show "ptr_add (next' d) n \<noteq> next' d"
    by (simp add: ptr_add_moves)
qed

text \<open>
  A dcore of ten elements allocated at address 4096: checking out three elements returns
  4120, the end of the block \<open>[4096, 4120)\<close>, and leaves seven elements free.
\<close>

theorem checkout_returns_advanced_pointer_witness:
  "allocate 4096 \<lparr>buf = 0, next' = 0, len = 0, navbl = 0, allocated = False\<rparr> 10
     = Inr \<lparr>buf = 4096, next' = 4096, len = 10, navbl = 10, allocated = True\<rparr>
   \<and> checkout \<lparr>buf = 4096, next' = 4096, len = 10, navbl = 10, allocated = True\<rparr> 3
     = Inr (4120, \<lparr>buf = 4096, next' = 4120, len = 10, navbl = 7, allocated = True\<rparr>)
   \<and> (4120 :: addr) \<noteq> 4096"
  using checkout_returns_advanced_pointer
          [of "\<lparr>buf = 4096, next' = 4096, len = 10, navbl = 10, allocated = True\<rparr>" 3]
  by (simp add: allocate_def check_buf_def NULL_def uint64_max_def ptr_add_def sizeof_double_def
        bump_inv_def used_def)

section \<open>Properties of tensor\<close>

lemma m_allocate_allocated_state: "m_allocate m th = Inr th' \<Longrightarrow> allocated_state th'"
  by (auto simp: m_allocate_def allocated_state_def split: prod.splits if_splits)

text \<open>
  Claim C10. On a tensor in the allocated state, \<open>deallocate\<close> returns normally, frees the
  block at \<open>M_POINTER\<close> and nulls \<open>M_BUFFER\<close>, and changes nothing else: \<open>M_POINTER\<close> and
  \<open>M_IS_ALLOCATED\<close> keep their values, so \<open>is_allocated\<close> is still true afterwards although
  the block \<open>M_POINTER\<close> names is no longer live. On an assigned tensor, by contrast, \<open>unassign\<close> ends in \<open>m_set_default\<close>: both pointers are null,
  \<open>M_NELM\<close> and \<open>M_ALIGNMENT\<close> are 0 and both flags are false.
\<close>

theorem deallocate_keeps_allocated_flag:
  assumes "allocated_state (t, h)" and "M_IS_ASSIGNED u"
  shows "(\<exists>t' h'. tensor_deallocate (t, h) = Inr (t', h')
            \<and> t' = t\<lparr>M_BUFFER := NULL\<rparr>
            \<and> h' = h - {M_POINTER t}
            \<and> M_BUFFER t' = NULL
            \<and> M_POINTER t' = M_POINTER t
            \<and> M_IS_ALLOCATED t'
            \<and> is_allocated t'
            \<and> M_POINTER t' \<notin> h')
         \<and> (\<exists>u'. unassign u = Inr u'
            \<and> u' = m_set_default u
            \<and> M_BUFFER u' = NULL \<and> M_POINTER u' = NULL
            \<and> M_NELM u' = 0 \<and> M_ALIGNMENT u' = 0
            \<and> \<not> is_allocated u' \<and> \<not> is_assigned u')"
  using assms
  by (simp add: allocated_state_def tensor_deallocate_def unassign_def m_set_default_def
        is_allocated_def is_assigned_def free_def)

text \<open>
  A tensor of three elements allocated at address 4096 and one assigned to address 8192:
  after \<open>deallocate\<close> the block is gone from the heap and the first still reports
  \<open>is_allocated\<close>; after \<open>unassign\<close> the second reports neither flag.
\<close>

theorem deallocate_keeps_allocated_flag_witness:
  "m_allocate 4096
     (\<lparr>M_BUFFER = 0, M_POINTER = 0, M_LENGTHS = [3], M_STRIDE = [1], M_NDIM = 1, M_NELM = 3,
       M_ALIGNMENT = 0, M_IS_ALLOCATED = False, M_IS_ASSIGNED = False\<rparr>, {})
     = Inr (\<lparr>M_BUFFER = 4096, M_POINTER = 4096, M_LENGTHS = [3], M_STRIDE = [1], M_NDIM = 1,
             M_NELM = 3, M_ALIGNMENT = 512, M_IS_ALLOCATED = True, M_IS_ASSIGNED = False\<rparr>,
            {4096})
   \<and> tensor_deallocate
       (\<lparr>M_BUFFER = 4096, M_POINTER = 4096, M_LENGTHS = [3], M_STRIDE = [1], M_NDIM = 1,
         M_NELM = 3, M_ALIGNMENT = 512, M_IS_ALLOCATED = True, M_IS_ASSIGNED = False\<rparr>, {4096})
     = Inr (\<lparr>M_BUFFER = 0, M_POINTER = 4096, M_LENGTHS = [3], M_STRIDE = [1], M_NDIM = 1,
             M_NELM = 3, M_ALIGNMENT = 512, M_IS_ALLOCATED = True, M_IS_ASSIGNED = False\<rparr>, {})
   \<and> is_allocated
       \<lparr>M_BUFFER = 0, M_POINTER = 4096, M_LENGTHS = [3], M_STRIDE = [1], M_NDIM = 1,
        M_NELM = 3, M_ALIGNMENT = 512, M_IS_ALLOCATED = True, M_IS_ASSIGNED = False\<rparr>
   \<and> unassign
       \<lparr>M_BUFFER = 8192, M_POINTER = 8192, M_LENGTHS = [3], M_STRIDE = [1], M_NDIM = 1,
        M_NELM = 3, M_ALIGNMENT = 512, M_IS_ALLOCATED = False, M_IS_ASSIGNED = True\<rparr>
     = Inr \<lparr>M_BUFFER = 0, M_POINTER = 0, M_LENGTHS = [3], M_STRIDE = [1], M_NDIM = 1,
            M_NELM = 0, M_ALIGNMENT = 0, M_IS_ALLOCATED = False, M_IS_ASSIGNED = False\<rparr>"
  using deallocate_keeps_allocated_flag
          [of "\<lparr>M_BUFFER = 4096, M_POINTER = 4096, M_LENGTHS = [3], M_STRIDE = [1], M_NDIM = 1,
                M_NELM = 3, M_ALIGNMENT = 512, M_IS_ALLOCATED = True, M_IS_ASSIGNED = False\<rparr>"
              "{4096}"
              "\<lparr>M_BUFFER = 8192, M_POINTER = 8192, M_LENGTHS = [3], M_STRIDE = [1], M_NDIM = 1,
                M_NELM = 3, M_ALIGNMENT = 512, M_IS_ALLOCATED = False, M_IS_ASSIGNED = True\<rparr>"]
  by (simp add: m_allocate_def calc_alignment_def NULL_def free_def m_set_default_def
        is_allocated_def allocated_state_def)

section \<open>Properties of Pfile\<close>

text \<open>
  Claim C5. For a record with id \<open>fid\<close> (an index into \<open>m_fio\<close>; the open records are among
  them), \<open>get_pos fid\<close> returns the position stored in that record's \<open>fpos\<close>, and both the
  object and the state of the operating system are after the call what they were before it.
\<close>

theorem get_pos_returns_stored_position:
  assumes "0 \<le> fid" and "nat fid < length (m_fio p)"
  shows "get_pos fid (p, os) = Some (fpos (m_fio p ! nat fid), (p, os))"
  using assms by (simp add: get_pos_def)

text \<open>Two open files, the second at position 128.\<close>

theorem get_pos_returns_stored_position_witness:
  "get_pos 1
     (\<lparr>m_fio = [\<lparr>fptr = 4096, fpos = 0\<rparr>, \<lparr>fptr = 8192, fpos = 128\<rparr>],
       m_isopen = [\<lparr>val = True\<rparr>, \<lparr>val = True\<rparr>],
       m_fname = [''log'', ''scratch''], m_fstat = [''w+b'', ''w+b''],
       m_buf = ''scratch'', m_nfiles = 2, m_rootid = 0\<rparr>, ())
     = Some (128,
        (\<lparr>m_fio = [\<lparr>fptr = 4096, fpos = 0\<rparr>, \<lparr>fptr = 8192, fpos = 128\<rparr>],
          m_isopen = [\<lparr>val = True\<rparr>, \<lparr>val = True\<rparr>],
          m_fname = [''log'', ''scratch''], m_fstat = [''w+b'', ''w+b''],
          m_buf = ''scratch'', m_nfiles = 2, m_rootid = 0\<rparr>, ()))"
  using get_pos_returns_stored_position
          [of 1 "\<lparr>m_fio = [\<lparr>fptr = 4096, fpos = 0\<rparr>, \<lparr>fptr = 8192, fpos = 128\<rparr>],
                   m_isopen = [\<lparr>val = True\<rparr>, \<lparr>val = True\<rparr>],
                   m_fname = [''log'', ''scratch''], m_fstat = [''w+b'', ''w+b''],
                   m_buf = ''scratch'', m_nfiles = 2, m_rootid = 0\<rparr>" "()"]
  by simp

section \<open>Properties of the registry of the specification\<close>

lemma filter_eq_upt: "filter (\<lambda>k. k = r) [0..<N] = (if r < N then [r] else [])"
  by (induction N) auto

text \<open>
  Claim C3. \<open>responsible\<close> is a function of the context and the sharing mode only. Among the
  \<open>N\<close> tasks of a run whose root \<open>r\<close> is one of them, the tasks responsible for a shared file
  are exactly one, the root; every task is responsible for a private file.
\<close>

theorem responsible_exactly_root:
  assumes "r < N"
  shows "filter (\<lambda>c. responsible c Shared) (tasks N r) = [\<lparr>rank = r, ntasks = N, root = r\<rparr>]
       \<and> length (filter (\<lambda>c. responsible c Shared) (tasks N r)) = 1
       \<and> (\<forall>c \<in> set (tasks N r). responsible c Shared = (rank c = r))
       \<and> (\<forall>c \<in> set (tasks N r). responsible c Private)"
proof -
  have "filter (\<lambda>c. responsible c Shared) (tasks N r)
          = map (\<lambda>k. \<lparr>rank = k, ntasks = N, root = r\<rparr>) (filter (\<lambda>k. k = r) [0..<N])"
    by (simp add: tasks_def filter_map o_def responsible_def)
  then have one:
    "filter (\<lambda>c. responsible c Shared) (tasks N r) = [\<lparr>rank = r, ntasks = N, root = r\<rparr>]"
    using assms by (simp add: filter_eq_upt)
  show ?thesis
    using one by (auto simp: tasks_def responsible_def)
qed

text \<open>Four tasks with root 2: of the ranks 0 to 3 only rank 2 is responsible for a shared file.\<close>

theorem responsible_exactly_root_witness:
  "map (\<lambda>c. responsible c Shared) (tasks 4 2) = [False, False, True, False]
   \<and> map (\<lambda>c. responsible c Private) (tasks 4 2) = [True, True, True, True]
   \<and> filter (\<lambda>c. responsible c Shared) (tasks 4 2) = [\<lparr>rank = 2, ntasks = 4, root = 2\<rparr>]"
  using responsible_exactly_root [of 2 4]
  by (simp add: tasks_def responsible_def upt_rec)

text \<open>
  Claim C4. When the responsible task saves a table, the store holds the table's
  \<open>(id, name, status)\<close> triples in table order, and recovering from that store, by any task
  of a run of any size, yields a table with the same triples in the same order (so the same
  id for every name) in which every record is closed and holds no handle.
\<close>

theorem save_recover_roundtrip:
  assumes "responsible c1 Shared"
  shows "fst (save c1 tbl st) = Inr ()
       \<and> snd (save c1 tbl st) = map triple_of tbl
       \<and> fst (recover c2 (snd (save c1 tbl st))) = Inr ()
       \<and> map triple_of (snd (recover c2 (snd (save c1 tbl st)))) = map triple_of tbl
       \<and> (\<forall>r \<in> set (snd (recover c2 (snd (save c1 tbl st)))). \<not> is_open r \<and> handle r = None)"
  using assms
  by (auto simp: save_def recover_def recovered_def triple_of_def o_def split: prod.splits)

text \<open>
  The root of a run of four tasks saves a table of two records, the first of them open; task
  1 of a run of two tasks recovers both records, closed, under their ids 0 and 1.
\<close>

theorem save_recover_roundtrip_witness:
  "snd (recover \<lparr>rank = 1, ntasks = 2, root = 0\<rparr>
         (snd (save \<lparr>rank = 0, ntasks = 4, root = 0\<rparr>
                 [\<lparr>file_id = 0, name = ''log'', sharing = Some Shared,
                   resolved_path = Some ''log'', status = ''w'', is_open = True,
                   handle = Some 4096, position = 17\<rparr>,
                  \<lparr>file_id = 1, name = ''scratch'', sharing = Some Private,
                   resolved_path = Some ''scratch.0'', status = ''a+b'', is_open = False,
                   handle = None, position = 0\<rparr>]
                 [])))
     = [\<lparr>file_id = 0, name = ''log'', sharing = None, resolved_path = None, status = ''w'',
         is_open = False, handle = None, position = 0\<rparr>,
        \<lparr>file_id = 1, name = ''scratch'', sharing = None, resolved_path = None,
         status = ''a+b'', is_open = False, handle = None, position = 0\<rparr>]"
  using save_recover_roundtrip
          [of "\<lparr>rank = 0, ntasks = 4, root = 0\<rparr>"
              "[\<lparr>file_id = 0, name = ''log'', sharing = Some Shared,
                 resolved_path = Some ''log'', status = ''w'', is_open = True,
                 handle = Some 4096, position = 17\<rparr>,
                \<lparr>file_id = 1, name = ''scratch'', sharing = Some Private,
                 resolved_path = Some ''scratch.0'', status = ''a+b'', is_open = False,
                 handle = None, position = 0\<rparr>]"
              "[]" "\<lparr>rank = 1, ntasks = 2, root = 0\<rparr>"]
  by (simp add: save_def recover_def recovered_def triple_of_def responsible_def)

end
